theory Spec2Isabelle
  imports Main "HOL-Library.Log_Nat" "HOL-Library.AList" "HOL-Library.Sublist"
begin

section \<open>Values\<close>

text \<open>
  The utilities of \<^verbatim>\<open>src/utils.py\<close> transform the columns of a pandas DataFrame.
  A cell holds a Python object: \<^verbatim>\<open>None\<close>, an \<^verbatim>\<open>int\<close>, a \<^verbatim>\<open>float\<close>, a \<^verbatim>\<open>str\<close>,
  a \<^verbatim>\<open>Timestamp\<close> or \<^verbatim>\<open>NaT\<close>. A character is one of the 256 code points of Latin-1.
  The model follows pandas 2 on CPython 3.11.

  A float is an IEEE 754 binary64 number: a finite value is the rational it denotes, and
  the two infinities and NaN are values of their own. The sign of zero is not tracked:
  no comparison made by the code distinguishes the two zeros.
\<close>

datatype pyfloat = Fin rat | PInf | NInf | NaN

datatype cell =
    PyNone
  | PyInt int
  | PyFloat pyfloat
  | PyStr string
  | PyTimestamp int nat nat
  | PyNaT

datatype pyerror = KeyError | TypeError | ValueError | AttributeError | OverflowError

subsection \<open>Rounding to binary64\<close>

text \<open>Round half to even, to an integer.\<close>

definition rhe :: "rat \<Rightarrow> int" where
  "rhe x = (let f = \<lfloor>x\<rfloor>; d = x - of_int f in
     if d < 1/2 then f else if 1/2 < d then f + 1 else if even f then f else f + 1)"

text \<open>The binary exponent of a nonzero rational: \<open>2 powi e \<le> \<bar>x\<bar> < 2 powi (e + 1)\<close>.\<close>

definition fl_exponent :: "rat \<Rightarrow> int" where
  "fl_exponent x = (let (p, q) = quotient_of \<bar>x\<bar>; d = bitlen p - bitlen q in
     if 2 powi d \<le> \<bar>x\<bar> then d else d - 1)"

text \<open>
  The nearest number with a 53-bit significand, ties to even; below the normal range the
  spacing is that of the subnormals, \<open>2 powi (- 1074)\<close>.
\<close>

definition fl_fin :: "rat \<Rightarrow> rat" where
  "fl_fin x = (if x = 0 then 0 else
     let q = 2 powi (max (fl_exponent x) (- 1022) - 52) in of_int (rhe (x / q)) * q)"

text \<open>IEEE rounding of an exact result: a magnitude of \<open>2 ^ 1024\<close> or more is an infinity.\<close>

definition fl :: "rat \<Rightarrow> pyfloat" where
  "fl x = (let y = fl_fin x in
     if 2 ^ 1024 \<le> y then PInf else if y \<le> - (2 ^ 1024) then NInf else Fin y)"

text \<open>The largest finite float.\<close>

definition dbl_max :: rat where
  "dbl_max = (2 ^ 53 - 1) * 2 ^ 971"

subsection \<open>Float arithmetic and comparison\<close>

fun fneg :: "pyfloat \<Rightarrow> pyfloat" where
  "fneg (Fin a) = Fin (- a)"
| "fneg PInf = NInf"
| "fneg NInf = PInf"
| "fneg NaN = NaN"

fun fadd :: "pyfloat \<Rightarrow> pyfloat \<Rightarrow> pyfloat" where
  "fadd NaN _ = NaN"
| "fadd _ NaN = NaN"
| "fadd (Fin a) (Fin b) = fl (a + b)"
| "fadd PInf NInf = NaN"
| "fadd NInf PInf = NaN"
| "fadd PInf _ = PInf"
| "fadd NInf _ = NInf"
| "fadd _ PInf = PInf"
| "fadd _ NInf = NInf"

definition fsub :: "pyfloat \<Rightarrow> pyfloat \<Rightarrow> pyfloat" where
  "fsub a b = fadd a (fneg b)"

text \<open>\<open>flt a b\<close> is the comparison \<^verbatim>\<open>a < b\<close>: false as soon as one side is NaN.\<close>

fun flt :: "pyfloat \<Rightarrow> pyfloat \<Rightarrow> bool" where
  "flt NaN _ = False"
| "flt _ NaN = False"
| "flt (Fin a) (Fin b) = (a < b)"
| "flt _ NInf = False"
| "flt NInf _ = True"
| "flt PInf _ = False"
| "flt _ PInf = True"

section \<open>Tables\<close>

text \<open>
  A DataFrame is its columns in order, each a name and the cells of that column; all
  columns have one length, the number of rows. A row, as \<^verbatim>\<open>DataFrame.apply(axis=1)\<close>
  hands it to a function, is the list of its named cells.
\<close>

type_synonym series = "cell list"
type_synonym dataframe = "(string \<times> series) list"
type_synonym row = "(string \<times> cell) list"

definition nrows :: "dataframe \<Rightarrow> nat" where
  "nrows df = (case df of [] \<Rightarrow> 0 | c # _ \<Rightarrow> length (snd c))"

definition wf_df :: "dataframe \<Rightarrow> bool" where
  "wf_df df = (distinct (map fst df) \<and> list_all (\<lambda>c. length (snd c) = nrows df) df)"


text \<open>\<^verbatim>\<open>df[name]\<close> raises KeyError for a name that is no column.\<close>

definition getitem :: "dataframe \<Rightarrow> string \<Rightarrow> pyerror + series" where
  "getitem df name = (case map_of df name of None \<Rightarrow> Inl KeyError | Some xs \<Rightarrow> Inr xs)"

text \<open>\<^verbatim>\<open>df[name] = xs\<close> replaces the column in place or appends a new last column.\<close>

definition setitem :: "dataframe \<Rightarrow> string \<Rightarrow> series \<Rightarrow> dataframe" where
  "setitem df name xs = AList.update name xs df"

text \<open>Missing values, as \<^verbatim>\<open>isna\<close> sees them.\<close>

fun isna :: "cell \<Rightarrow> bool" where
  "isna PyNone = True"
| "isna (PyFloat NaN) = True"
| "isna PyNaT = True"
| "isna _ = False"

text \<open>The kind of a cell.\<close>

fun is_int :: "cell \<Rightarrow> bool" where
  "is_int (PyInt _) = True"
| "is_int _ = False"

fun is_float :: "cell \<Rightarrow> bool" where
  "is_float (PyFloat _) = True"
| "is_float _ = False"

fun is_str :: "cell \<Rightarrow> bool" where
  "is_str (PyStr _) = True"
| "is_str _ = False"

text \<open>Boolean indexing: the entries at which the mask is true.\<close>

fun select :: "bool list \<Rightarrow> 'a list \<Rightarrow> 'a list" where
  "select (b # bs) (x # xs) = (if b then x # select bs xs else select bs xs)"
| "select _ _ = []"

section \<open>Deduplicator: \<^verbatim>\<open>clean_dataset\<close>\<close>


fun same_cell :: "cell \<Rightarrow> cell \<Rightarrow> bool" where
  "same_cell (PyInt i) (PyInt j) = (i = j)"
| "same_cell (PyInt i) (PyFloat (Fin r)) = (of_int i = r)"
| "same_cell (PyFloat (Fin r)) (PyInt i) = (r = of_int i)"
| "same_cell a b = (if isna a \<or> isna b then isna a \<and> isna b else a = b)"

definition same_row :: "cell list \<Rightarrow> cell list \<Rightarrow> bool" where
  "same_row r s = list_all2 same_cell r s"










section \<open>Row-wise Deriver: \<^verbatim>\<open>calculate_age_of_flat\<close>\<close>

text \<open>
  \<^verbatim>\<open>99 - v\<close>: integer or float subtraction by the kind of \<open>v\<close>, TypeError otherwise.
  The int is a Python int, as a row of mixed kinds holds it. (The row of a table that has
  integer columns only holds 64-bit integers, whose subtraction wraps around: the model
  does not cover that.)
\<close>

fun rsub99 :: "cell \<Rightarrow> pyerror + cell" where
  "rsub99 (PyInt n) = Inr (PyInt (99 - n))"
| "rsub99 (PyFloat x) = Inr (PyFloat (fsub (Fin 99) x))"
| "rsub99 _ = Inl TypeError"

text \<open>\<^verbatim>\<open>max(age, 0)\<close> returns its first argument unless the second is greater.\<close>

fun max0 :: "cell \<Rightarrow> cell" where
  "max0 (PyInt n) = (if 0 > n then PyInt 0 else PyInt n)"
| "max0 (PyFloat x) = (if flt x (Fin 0) then PyInt 0 else PyFloat x)"
| "max0 c = c"

definition calculate_age_of_flat :: "row \<Rightarrow> pyerror + cell" where
  "calculate_age_of_flat r =
     (case map_of r ''remaining_lease'' of
        None \<Rightarrow> Inl KeyError
      | Some v \<Rightarrow> (case rsub99 v of Inl e \<Rightarrow> Inl e | Inr age \<Rightarrow> Inr (max0 age)))"

text \<open>A cell that compares below zero.\<close>

fun negative :: "cell \<Rightarrow> bool" where
  "negative (PyInt n) = (n < 0)"
| "negative (PyFloat x) = flt x (Fin 0)"
| "negative _ = False"

section \<open>Lease Standardizer: \<^verbatim>\<open>standardize_remaining_lease\<close>\<close>

subsection \<open>The Python operations it uses\<close>

text \<open>
  \<^verbatim>\<open>float(n)\<close> of an \<^verbatim>\<open>int\<close> rounds to the nearest float and raises OverflowError when
  that is out of range; \<^verbatim>\<open>a / b\<close> of two ints rounds the exact quotient and raises
  OverflowError likewise.
\<close>

definition float_of_int :: "int \<Rightarrow> pyerror + pyfloat" where
  "float_of_int n = (case fl (of_int n) of Fin y \<Rightarrow> Inr (Fin y) | _ \<Rightarrow> Inl OverflowError)"

definition int_truediv :: "int \<Rightarrow> int \<Rightarrow> pyerror + pyfloat" where
  "int_truediv a b = (case fl (of_int a / of_int b) of Fin y \<Rightarrow> Inr (Fin y) | _ \<Rightarrow> Inl OverflowError)"

text \<open>
  \<^verbatim>\<open>round(x, 1)\<close> of a float: the decimal with one digit after the point nearest to the
  exact value of \<open>x\<close>, ties to even, then the float nearest to that decimal. Infinities
  and NaN round to themselves.
\<close>

fun round1 :: "pyfloat \<Rightarrow> pyfloat" where
  "round1 (Fin x) = fl (of_int (rhe (x * 10)) / 10)"
| "round1 x = x"

text \<open>\<^verbatim>\<open>min(x, 99.0)\<close> returns its first argument unless the second is smaller.\<close>

definition min99 :: "pyfloat \<Rightarrow> pyfloat" where
  "min99 x = (if flt (Fin 99) x then Fin 99 else x)"

text \<open>Sequencing of computations that may raise.\<close>

definition bind_err :: "pyerror + 'a \<Rightarrow> ('a \<Rightarrow> pyerror + 'b) \<Rightarrow> pyerror + 'b" where
  "bind_err m f = (case m of Inl e \<Rightarrow> Inl e | Inr x \<Rightarrow> f x)"

subsection \<open>The two patterns\<close>

text \<open>
  \<^verbatim>\<open>re.match\<close> anchors the pattern at the start of the string only. \<^verbatim>\<open>\d+\<close> is greedy,
  and giving digits back cannot help, since the pattern goes on with a space: the group
  is the longest run of digits. Among the Latin-1 characters \<^verbatim>\<open>\d\<close> matches \<^verbatim>\<open>0\<close> to \<^verbatim>\<open>9\<close>
  only.
\<close>

definition is_digit :: "char \<Rightarrow> bool" where
  "is_digit c = (c \<in> set ''0123456789'')"

text \<open>The value of a run of digits read as a decimal numeral.\<close>

definition int_of_digits :: "string \<Rightarrow> int" where
  "int_of_digits ds = foldl (\<lambda>a c. 10 * a + (of_char c - 48)) 0 ds"

text \<open>
  \<^verbatim>\<open>int(s)\<close> of a run of digits gives that value, but CPython refuses a numeral of more
  than 4300 digits, leading zeros counted, with ValueError (the default limit of
  \<^verbatim>\<open>sys.set_int_max_str_digits\<close>).
\<close>

definition py_int :: "string \<Rightarrow> pyerror + int" where
  "py_int ds = (if 4300 < length ds then Inl ValueError else Inr (int_of_digits ds))"

text \<open>\<open>strip_prefix p s\<close> is the rest of \<open>s\<close> after the literal \<open>p\<close>, if \<open>s\<close> starts with it.\<close>

fun strip_prefix :: "string \<Rightarrow> string \<Rightarrow> string option" where
  "strip_prefix [] s = Some s"
| "strip_prefix (p # ps) [] = None"
| "strip_prefix (p # ps) (c # cs) = (if p = c then strip_prefix ps cs else None)"

text \<open>\<^verbatim>\<open>re.match(r"(\d+) years (\d+) months", s)\<close>: the two groups, if the pattern matches.\<close>

definition match_full :: "string \<Rightarrow> (string \<times> string) option" where
  "match_full s =
     (let g1 = takeWhile is_digit s in
      if g1 = [] then None
      else case strip_prefix '' years '' (dropWhile is_digit s) of
          None \<Rightarrow> None
        | Some r \<Rightarrow>
            (let g2 = takeWhile is_digit r in
             if g2 = [] then None
             else case strip_prefix '' months'' (dropWhile is_digit r) of
                 None \<Rightarrow> None
               | Some _ \<Rightarrow> Some (g1, g2)))"

text \<open>\<^verbatim>\<open>re.match(r"(\d+) years", s)\<close>: the group, if the pattern matches.\<close>

definition match_years :: "string \<Rightarrow> string option" where
  "match_years s =
     (let g1 = takeWhile is_digit s in
      if g1 = [] then None
      else case strip_prefix '' years'' (dropWhile is_digit s) of
          None \<Rightarrow> None
        | Some _ \<Rightarrow> Some g1)"

text \<open>
  What the two patterns mean, stated on the string: a nonempty run of digits, the
  literal text, and for the first pattern a second run and its literal, at the start of
  the string, whatever follows.
\<close>

definition all_digits :: "string \<Rightarrow> bool" where
  "all_digits g = (g \<noteq> [] \<and> list_all is_digit g)"



subsection \<open>The conversion of one value\<close>

text \<open>
  \<^verbatim>\<open>convert_lease\<close>: a float or int is rounded and capped; anything else goes to
  \<^verbatim>\<open>re.match\<close>, which raises TypeError for what is no string.
\<close>

fun convert_lease :: "cell \<Rightarrow> pyerror + cell" where
  "convert_lease (PyFloat x) = Inr (PyFloat (min99 (round1 x)))"
| "convert_lease (PyInt n) =
     bind_err (float_of_int n) (\<lambda>x. Inr (PyFloat (min99 (round1 x))))"
| "convert_lease (PyStr lease) =
     (case match_full lease of
        Some (g1, g2) \<Rightarrow>
          bind_err (py_int g1) (\<lambda>years.
          bind_err (py_int g2) (\<lambda>months.
          bind_err (int_truediv months 12) (\<lambda>fraction.
          bind_err (float_of_int years) (\<lambda>years.
          Inr (PyFloat (min99 (round1 (fadd years fraction))))))))
      | None \<Rightarrow>
          (case match_years lease of
             Some g1 \<Rightarrow>
               bind_err (py_int g1) (\<lambda>years.
               bind_err (float_of_int years) (\<lambda>years.
               Inr (PyFloat (min99 (round1 years)))))
           | None \<Rightarrow> Inr PyNone))"
| "convert_lease _ = Inl TypeError"



subsection \<open>The column\<close>

text \<open>\<^verbatim>\<open>Series.apply\<close> calls the function on each cell in turn; the first exception ends it.\<close>

fun apply_series :: "(cell \<Rightarrow> pyerror + cell) \<Rightarrow> series \<Rightarrow> pyerror + series" where
  "apply_series f [] = Inr []"
| "apply_series f (x # xs) =
     bind_err (f x) (\<lambda>y. bind_err (apply_series f xs) (\<lambda>ys. Inr (y # ys)))"

text \<open>
  \<^verbatim>\<open>Series.apply\<close> then infers the type of the results: when a float is among them the
  column becomes a float column and each \<^verbatim>\<open>None\<close> becomes NaN; a column of \<^verbatim>\<open>None\<close> only
  stays as it is.
\<close>

definition infer_objects :: "series \<Rightarrow> series" where
  "infer_objects xs =
     (if list_ex is_float xs then map (\<lambda>c. if c = PyNone then PyFloat NaN else c) xs else xs)"

definition standardize_remaining_lease :: "dataframe \<Rightarrow> pyerror + dataframe" where
  "standardize_remaining_lease df =
     bind_err (getitem df ''remaining_lease'') (\<lambda>col.
     bind_err (apply_series convert_lease col) (\<lambda>res.
     Inr (setitem df ''remaining_lease'' (infer_objects res))))"

section \<open>Text Normalizer: \<^verbatim>\<open>clean_flat_model\<close>\<close>

text \<open>
  A character of the model is one of the 256 code points of Latin-1.

  \<^verbatim>\<open>str.strip()\<close> removes the whitespace at both ends: the blank, the controls 9 to 13
  and 28 to 31, the next-line control 133 and the no-break space 160.

  \<^verbatim>\<open>str.upper()\<close> maps the letters \<^verbatim>\<open>a\<close> to \<^verbatim>\<open>z\<close> and the accented small letters 224 to
  254, the division sign 247 apart, to their capitals 32 code points below, and the sharp
  s 223 to the two letters \<^verbatim>\<open>SS\<close>. Two small letters have a capital that is no Latin-1
  character, the micro sign 181 and the y with diaeresis 255: the model leaves them as
  they are, and what is proved of \<^verbatim>\<open>str.upper()\<close> is proved of strings without them.
\<close>

definition is_space :: "char \<Rightarrow> bool" where
  "is_space c = (c \<in> set [CHR '' '', CHR 0x09, CHR 0x0A, CHR 0x0B, CHR 0x0C, CHR 0x0D,
     CHR 0x1C, CHR 0x1D, CHR 0x1E, CHR 0x1F, CHR 0x85, CHR 0xA0])"

definition py_strip :: "string \<Rightarrow> string" where
  "py_strip s = rev (dropWhile is_space (rev (dropWhile is_space s)))"

definition small_letters :: string where
  "small_letters = ''abcdefghijklmnopqrstuvwxyz'' @
       [CHR 0xE0, CHR 0xE1, CHR 0xE2, CHR 0xE3, CHR 0xE4, CHR 0xE5, CHR 0xE6,
        CHR 0xE7, CHR 0xE8, CHR 0xE9, CHR 0xEA, CHR 0xEB, CHR 0xEC, CHR 0xED,
        CHR 0xEE, CHR 0xEF, CHR 0xF0, CHR 0xF1, CHR 0xF2, CHR 0xF3, CHR 0xF4,
        CHR 0xF5, CHR 0xF6, CHR 0xF8, CHR 0xF9, CHR 0xFA, CHR 0xFB, CHR 0xFC,
        CHR 0xFD, CHR 0xFE]"

definition capital_letters :: string where
  "capital_letters = ''ABCDEFGHIJKLMNOPQRSTUVWXYZ'' @
       [CHR 0xC0, CHR 0xC1, CHR 0xC2, CHR 0xC3, CHR 0xC4, CHR 0xC5, CHR 0xC6,
        CHR 0xC7, CHR 0xC8, CHR 0xC9, CHR 0xCA, CHR 0xCB, CHR 0xCC, CHR 0xCD,
        CHR 0xCE, CHR 0xCF, CHR 0xD0, CHR 0xD1, CHR 0xD2, CHR 0xD3, CHR 0xD4,
        CHR 0xD5, CHR 0xD6, CHR 0xD8, CHR 0xD9, CHR 0xDA, CHR 0xDB, CHR 0xDC,
        CHR 0xDD, CHR 0xDE]"

definition upper_char :: "char \<Rightarrow> string" where
  "upper_char c =
     (if c = CHR 0xDF then ''SS''
      else case map_of (zip small_letters capital_letters) c of
          Some u \<Rightarrow> [u]
        | None \<Rightarrow> [c])"

definition py_upper :: "string \<Rightarrow> string" where
  "py_upper s = concat (map upper_char s)"



text \<open>
  The \<^verbatim>\<open>.str\<close> accessor raises AttributeError unless the values are text. It accepts a
  column in which a string occurs, whatever else occurs, and a column of objects that
  are all missing: the empty column, and a column of \<^verbatim>\<open>None\<close> and NaN in which \<^verbatim>\<open>None\<close>
  occurs. A column of NaN only is a float column, and refused like any column of
  numbers or dates.
\<close>

definition str_accessor :: "series \<Rightarrow> pyerror + series" where
  "str_accessor col =
     (if list_ex is_str col
         \<or> (list_all (\<lambda>c. c = PyNone \<or> c = PyFloat NaN) col \<and> (col = [] \<or> list_ex (\<lambda>c. c = PyNone) col))
      then Inr col else Inl AttributeError)"

text \<open>
  A string method of the accessor works on the strings, leaves a missing value as it
  is, and gives NaN for any other object.
\<close>

fun str_method :: "(string \<Rightarrow> string) \<Rightarrow> cell \<Rightarrow> cell" where
  "str_method f (PyStr s) = PyStr (f s)"
| "str_method f c = (if isna c then c else PyFloat NaN)"

definition clean_flat_model :: "dataframe \<Rightarrow> pyerror + dataframe" where
  "clean_flat_model df =
     bind_err (getitem df ''flat_model'') (\<lambda>col.
     bind_err (str_accessor col) (\<lambda>col.
     bind_err (str_accessor (map (str_method py_strip) col)) (\<lambda>stripped.
     Inr (setitem df ''flat_model'' (map (str_method py_upper) stripped)))))"


section \<open>Column Splitter: \<^verbatim>\<open>split_storey_range\<close>\<close>

text \<open>
  \<^verbatim>\<open>s.split(sep)\<close> for a nonempty separator: the pieces between the occurrences of the
  separator, found from left to right. \<open>skip\<close> counts the characters of a separator
  still to pass over, \<open>cur\<close> is the piece being read, reversed.
\<close>

fun split_from :: "string \<Rightarrow> nat \<Rightarrow> string \<Rightarrow> string \<Rightarrow> string list" where
  "split_from sep skip cur [] = [rev cur]"
| "split_from sep (Suc k) cur (c # cs) = split_from sep k cur cs"
| "split_from sep 0 cur (c # cs) =
     (if sep \<noteq> [] \<and> prefix sep (c # cs) then rev cur # split_from sep (length sep - 1) [] cs
      else split_from sep 0 (c # cur) cs)"

definition py_split :: "string \<Rightarrow> string \<Rightarrow> string list" where
  "py_split sep s = split_from sep 0 [] s"

text \<open>
  \<^verbatim>\<open>.str.split(sep, expand=True)\<close> makes a row of pieces from each string and a row of one
  missing value from anything else; the frame it returns has as many columns as the
  longest row, and shorter rows are filled with missing values.
\<close>

fun split_cell :: "string \<Rightarrow> cell \<Rightarrow> cell list" where
  "split_cell sep (PyStr s) = map PyStr (py_split sep s)"
| "split_cell sep c = [if isna c then c else PyFloat NaN]"

definition width :: "cell list list \<Rightarrow> nat" where
  "width rows = foldr (\<lambda>r n. max (length r) n) rows 0"

definition piece :: "nat \<Rightarrow> cell list \<Rightarrow> cell" where
  "piece j r =
     (if j < length r then r ! j
      else case r of [c] \<Rightarrow> (if isna c then c else PyNone) | _ \<Rightarrow> PyNone)"

text \<open>
  \<^verbatim>\<open>pd.to_numeric(col, errors='coerce')\<close> on a column of strings and missing values. Only
  plain decimal numerals are read here, which is what a storey range holds;
  \<^verbatim>\<open>to_numeric\<close> also reads signs, fractions and exponents. What it cannot read becomes
  NaN. The column is an integer column when every cell was read and fits 64 bits, and a
  float column otherwise.
\<close>

fun parse_numeral :: "cell \<Rightarrow> int option" where
  "parse_numeral (PyStr s) = (if all_digits s then Some (int_of_digits s) else None)"
| "parse_numeral c = None"

definition to_numeric_coerce :: "series \<Rightarrow> series" where
  "to_numeric_coerce col =
     (let parsed = map parse_numeral col in
      if list_all (\<lambda>v. case v of Some n \<Rightarrow> n < 2 ^ 64 | None \<Rightarrow> False) parsed
      then map (\<lambda>v. case v of Some n \<Rightarrow> PyInt n | None \<Rightarrow> PyFloat NaN) parsed
      else map (\<lambda>v. case v of Some n \<Rightarrow> PyFloat (fl (of_int n)) | None \<Rightarrow> PyFloat NaN) parsed)"

text \<open>
  Assigning a frame to the two keys \<^verbatim>\<open>['lower_storey', 'upper_storey']\<close> raises ValueError
  (\<^verbatim>\<open>Columns must be same length as key\<close>) unless the frame has two columns.
\<close>

definition split_storey_range :: "dataframe \<Rightarrow> pyerror + dataframe" where
  "split_storey_range df =
     bind_err (getitem df ''storey_range'') (\<lambda>col.
     bind_err (str_accessor col) (\<lambda>col.
       let rows = map (split_cell '' TO '') col in
       if width rows \<noteq> 2 then Inl ValueError
       else
         let df1 = setitem df ''lower_storey'' (map (piece 0) rows);
             df2 = setitem df1 ''upper_storey'' (map (piece 1) rows)
         in
         bind_err (getitem df2 ''lower_storey'') (\<lambda>lower.
           let df3 = setitem df2 ''lower_storey'' (to_numeric_coerce lower) in
           bind_err (getitem df3 ''upper_storey'') (\<lambda>upper.
             Inr (setitem df3 ''upper_storey'' (to_numeric_coerce upper))))))"

section \<open>Grouped Aggregator: \<^verbatim>\<open>add_max_storey\<close>\<close>

text \<open>
  \<^verbatim>\<open>groupby\<close> factorizes the key columns as \<^verbatim>\<open>duplicated\<close> does, and with its default
  \<^verbatim>\<open>dropna=True\<close> a row with a missing key belongs to no group. \<^verbatim>\<open>transform('max')\<close> gives
  each row the maximum of its group, NaN excluded, and NaN to a row without a group or
  whose group has no value.

  The model covers a numeric \<^verbatim>\<open>upper_storey\<close> column, which is what
  \<^verbatim>\<open>split_storey_range\<close> leaves. For a column with other objects it gives TypeError,
  which is what pandas raises for a mix of strings and numbers, though not for a column
  of strings, whose maximum it takes: nothing is proved about such columns. The result
  is an integer column when the input is one and no row gets NaN, and a float column
  otherwise.
\<close>

fun numeric_or_missing :: "cell \<Rightarrow> bool" where
  "numeric_or_missing (PyInt _) = True"
| "numeric_or_missing (PyFloat _) = True"
| "numeric_or_missing PyNone = True"
| "numeric_or_missing _ = False"

text \<open>The order of numbers: an int stands for its exact value.\<close>

fun value_of :: "cell \<Rightarrow> pyfloat" where
  "value_of (PyInt n) = Fin (of_int n)"
| "value_of (PyFloat x) = x"
| "value_of _ = NaN"

definition cell_lt :: "cell \<Rightarrow> cell \<Rightarrow> bool" where
  "cell_lt a b = flt (value_of a) (value_of b)"

fun max_by :: "('a \<Rightarrow> 'a \<Rightarrow> bool) \<Rightarrow> 'a list \<Rightarrow> 'a option" where
  "max_by lt [] = None"
| "max_by lt (x # xs) =
     (case max_by lt xs of None \<Rightarrow> Some x | Some m \<Rightarrow> Some (if lt m x then x else m))"

fun to_float_cell :: "cell \<Rightarrow> cell" where
  "to_float_cell (PyInt n) = PyFloat (fl (of_int n))"
| "to_float_cell c = c"

text \<open>The key of each row, and the values of the rows that share the key \<open>k\<close>.\<close>

definition group_keys :: "series \<Rightarrow> series \<Rightarrow> series \<Rightarrow> cell list list" where
  "group_keys town block street = map (\<lambda>(t, b, s). [t, b, s]) (zip town (zip block street))"

definition group_values :: "cell list list \<Rightarrow> series \<Rightarrow> cell list \<Rightarrow> cell list" where
  "group_values keys upper k =
     map snd (filter (\<lambda>(k', u). same_row k' k \<and> \<not> isna u) (zip keys upper))"

definition group_max :: "cell list list \<Rightarrow> series \<Rightarrow> cell list \<Rightarrow> cell option" where
  "group_max keys upper k =
     (if list_ex isna k then None else max_by cell_lt (group_values keys upper k))"

definition transform_max :: "cell list list \<Rightarrow> series \<Rightarrow> series" where
  "transform_max keys upper =
     (let results = map (group_max keys upper) keys in
      if list_all is_int upper \<and> list_all (\<lambda>r. r \<noteq> None) results
      then map (\<lambda>r. case r of Some c \<Rightarrow> c | None \<Rightarrow> PyFloat NaN) results
      else map (\<lambda>r. case r of Some c \<Rightarrow> to_float_cell c | None \<Rightarrow> PyFloat NaN) results)"

definition add_max_storey :: "dataframe \<Rightarrow> pyerror + dataframe" where
  "add_max_storey df =
     bind_err (getitem df ''town'') (\<lambda>town.
     bind_err (getitem df ''block'') (\<lambda>block.
     bind_err (getitem df ''street_name'') (\<lambda>street.
     bind_err (getitem df ''upper_storey'') (\<lambda>upper.
       if \<not> list_all numeric_or_missing upper then Inl TypeError
       else Inr (setitem df ''max_storey''
                   (transform_max (group_keys town block street) upper))))))"

text \<open>
  An integer column gives an integer column when no key is missing in the table, and is
  converted to floats otherwise.
\<close>

definition stays_int :: "cell list list \<Rightarrow> series \<Rightarrow> bool" where
  "stays_int keys upper = (list_all is_int upper \<and> \<not> list_ex (list_ex isna) keys)"

section \<open>Date Normalizer: \<^verbatim>\<open>convert_month_to_datetime\<close>\<close>










section \<open>Lease Imputer: \<^verbatim>\<open>impute_remaining_lease\<close>\<close>

subsection \<open>The column operations it uses\<close>


















subsection \<open>The imputer\<close>






section \<open>Properties of binary64 rounding\<close>

lemma pow2_pos: "(0::rat) < 2 powi k"
  by (simp add: zero_less_power_int)

lemma pow2_add: "(2::rat) powi (a + b) = 2 powi a * 2 powi b"
  by (simp add: power_int_add)

lemma pow2_diff: "(2::rat) powi (a - b) = 2 powi a / 2 powi b"
  by (simp add: power_int_diff)

lemma pow2_le: "(2::rat) powi a \<le> 2 powi b \<longleftrightarrow> a \<le> b"
proof
  assume "a \<le> b"
  then show "(2::rat) powi a \<le> 2 powi b" by (intro power_int_increasing) simp_all
next
  assume le: "(2::rat) powi a \<le> 2 powi b"
  show "a \<le> b"
  proof (rule ccontr)
    assume "\<not> a \<le> b"
    then have "(2::rat) powi b < 2 powi a" by (intro power_int_strict_increasing) simp_all
    with le show False by simp
  qed
qed

lemma pow2_less: "(2::rat) powi a < 2 powi b \<longleftrightarrow> a < b"
  using pow2_le [of b a] by (simp only: linorder_not_le [symmetric])

lemma bitlen_pow2_bounds:
  assumes "0 < p"
  shows "(2::rat) powi (bitlen p - 1) \<le> of_int p" and "of_int p < (2::rat) powi (bitlen p)"
proof -
  have b: "1 \<le> bitlen p" using assms by (simp add: bitlen_alt_def)
  have "(2::int) ^ nat (bitlen p - 1) \<le> p" and "p < 2 ^ nat (bitlen p)"
    using bitlen_bounds [OF assms] by auto
  then have "(of_int (2 ^ nat (bitlen p - 1)) :: rat) \<le> of_int p"
    and "(of_int p :: rat) < of_int (2 ^ nat (bitlen p))"
    by (simp_all only: of_int_le_iff of_int_less_iff)
  then show "(2::rat) powi (bitlen p - 1) \<le> of_int p" and "of_int p < (2::rat) powi (bitlen p)"
    using b by (simp_all add: power_int_def)
qed

lemma fl_exponent_bounds:
  assumes "x \<noteq> 0"
  shows "2 powi (fl_exponent x) \<le> \<bar>x\<bar>" and "\<bar>x\<bar> < 2 powi (fl_exponent x + 1)"
proof -
  obtain p q where pq: "quotient_of \<bar>x\<bar> = (p, q)" by force
  have q: "0 < q" using quotient_of_denom_pos [OF pq] .
  have x: "\<bar>x\<bar> = of_int p / of_int q" using quotient_of_div [OF pq] .
  have "0 < \<bar>x\<bar>" using assms by simp
  then have p: "0 < p" using q unfolding x by (simp add: zero_less_divide_iff)
  define d where "d = bitlen p - bitlen q"
  have Q: "(0::rat) < of_int q" using q by simp
  have up: "\<bar>x\<bar> < 2 powi (d + 1)"
  proof -
    have "of_int p < (2::rat) powi (bitlen p)" using bitlen_pow2_bounds(2) [OF p] .
    also have "\<dots> = 2 powi (d + 1) * 2 powi (bitlen q - 1)"
      by (simp add: d_def pow2_add [symmetric])
    also have "\<dots> \<le> 2 powi (d + 1) * of_int q"
      using bitlen_pow2_bounds(1) [OF q] pow2_pos [of "d + 1"] by simp
    finally show ?thesis using Q unfolding x by (simp add: pos_divide_less_eq)
  qed
  have lo: "2 powi (d - 1) \<le> \<bar>x\<bar>"
  proof -
    have "2 powi (d - 1) * of_int q \<le> 2 powi (d - 1) * (2::rat) powi (bitlen q)"
      using bitlen_pow2_bounds(2) [OF q] pow2_pos [of "d - 1"] by simp
    also have "\<dots> = 2 powi (bitlen p - 1)"
      by (simp add: d_def pow2_add [symmetric])
    also have "\<dots> \<le> of_int p" using bitlen_pow2_bounds(1) [OF p] .
    finally show ?thesis using Q unfolding x by (simp add: pos_le_divide_eq)
  qed
  have e: "fl_exponent x = (if 2 powi d \<le> \<bar>x\<bar> then d else d - 1)"
    by (simp add: fl_exponent_def pq d_def Let_def)
  show "2 powi (fl_exponent x) \<le> \<bar>x\<bar>"
    using lo by (simp add: e)
  show "\<bar>x\<bar> < 2 powi (fl_exponent x + 1)"
    using up by (simp add: e)
qed

lemma rhe_of_int: "rhe (of_int n) = n"
  by (simp add: rhe_def)

lemma fl_fin_exact:
  assumes x: "x = of_int m * 2 powi e" and m: "\<bar>m\<bar> < 2 ^ 53" and e: "- 1074 \<le> e"
  shows "fl_fin x = x"
proof (cases "x = 0")
  case True
  then show ?thesis by (simp add: fl_fin_def)
next
  case False
  define k where "k = max (fl_exponent x) (- 1022) - 52"
  have "\<bar>x\<bar> = of_int \<bar>m\<bar> * 2 powi e"
    using pow2_pos [of e] by (simp add: x abs_mult)
  also have "\<dots> < of_int (2 ^ 53) * 2 powi e"
    using m pow2_pos [of e] by (simp only: mult_less_cancel_right_pos of_int_less_iff)
  also have "\<dots> = 2 powi (53 + e)"
    by (simp add: pow2_add)
  finally have "2 powi (fl_exponent x) < (2::rat) powi (53 + e)"
    using fl_exponent_bounds(1) [OF False] by simp
  then have "fl_exponent x < 53 + e" by (simp only: pow2_less)
  then have ke: "k \<le> e" using e by (simp add: k_def)
  have "x / 2 powi k = of_int m * 2 powi (e - k)"
    by (simp add: x pow2_diff)
  also have "\<dots> = of_int (m * 2 ^ nat (e - k))"
    using ke by (simp add: power_int_def)
  finally have "rhe (x / 2 powi k) = m * 2 ^ nat (e - k)"
    by (simp only: rhe_of_int)
  then have "of_int (rhe (x / 2 powi k)) * (2::rat) powi k
      = of_int m * of_int (2 ^ nat (e - k)) * 2 powi k"
    by simp
  also have "\<dots> = of_int m * (2 powi (e - k) * 2 powi k)"
    using ke by (simp add: power_int_def)
  also have "\<dots> = x"
    by (simp add: x pow2_add [symmetric])
  finally show ?thesis using False by (simp add: fl_fin_def k_def Let_def)
qed

lemma fl_fin_int: "\<bar>n\<bar> < 2 ^ 53 \<Longrightarrow> fl_fin (of_int n) = of_int n"
  using fl_fin_exact [of "of_int n" n 0] by simp

lemma fl_minus_6: "fl (- 6) = Fin (- 6)"
  using fl_fin_int [of "- 6"] by (simp add: fl_def)


lemma rhe_nonneg: "0 \<le> x \<Longrightarrow> 0 \<le> rhe x"
  by (auto simp: rhe_def Let_def)

lemma rhe_nonpos: "x \<le> 0 \<Longrightarrow> rhe x \<le> 0"
proof -
  assume x: "x \<le> 0"
  define f where "f = \<lfloor>x\<rfloor>"
  have f: "f \<le> 0" using x by (simp add: f_def floor_le_zero)
  show ?thesis
  proof (cases "f = 0")
    case True
    then have "0 \<le> x" unfolding f_def by (metis of_int_0 of_int_floor_le)
    with x have "x = 0" by simp
    then show ?thesis by (simp add: rhe_def)
  next
    case False
    with f have "f + 1 \<le> 0" by linarith
    with f show ?thesis unfolding rhe_def Let_def f_def [symmetric] by simp
  qed
qed

lemma fl_fin_nonneg: "0 \<le> x \<Longrightarrow> 0 \<le> fl_fin x"
proof -
  assume x: "0 \<le> x"
  have "0 \<le> rhe (x / 2 powi k)" for k
    using x pow2_pos [of k] by (intro rhe_nonneg) simp
  then have "0 \<le> of_int (rhe (x / 2 powi k)) * (2 powi k :: rat)" for k
    using pow2_pos [of k] by (simp add: zero_le_mult_iff)
  then show ?thesis by (simp add: fl_fin_def Let_def)
qed

lemma fl_fin_nonpos: "x \<le> 0 \<Longrightarrow> fl_fin x \<le> 0"
proof -
  assume x: "x \<le> 0"
  have "rhe (x / 2 powi k) \<le> 0" for k
    using x pow2_pos [of k] by (intro rhe_nonpos) (simp add: divide_le_0_iff)
  then have "of_int (rhe (x / 2 powi k)) * (2 powi k :: rat) \<le> 0" for k
    using pow2_pos [of k] by (simp add: mult_le_0_iff)
  then show ?thesis by (simp add: fl_fin_def Let_def)
qed

lemma fl_nonneg: "0 \<le> x \<Longrightarrow> \<not> flt (fl x) (Fin 0)"
  using fl_fin_nonneg [of x] by (auto simp: fl_def Let_def)

lemma fl_nonpos_cases:
  "x \<le> 0 \<Longrightarrow> flt (fl x) (Fin 0) \<or> fl x = Fin 0"
  using fl_fin_nonpos [of x] by (auto simp: fl_def Let_def)



lemma rhe_le: "y \<le> of_int n \<Longrightarrow> rhe y \<le> n"
proof (cases "y = of_int \<lfloor>y\<rfloor>")
  case True
  assume "y \<le> of_int n"
  then have "\<lfloor>y\<rfloor> \<le> n" by (simp add: floor_le_iff)
  moreover have "rhe y = \<lfloor>y\<rfloor>" using True by (metis rhe_of_int)
  ultimately show ?thesis by simp
next
  case False
  assume y: "y \<le> of_int n"
  have "of_int \<lfloor>y\<rfloor> < y" using False by (metis of_int_floor_le less_le)
  then have "of_int \<lfloor>y\<rfloor> < (of_int n :: rat)" using y by simp
  then have "\<lfloor>y\<rfloor> + 1 \<le> n" by simp
  then show ?thesis by (simp add: rhe_def Let_def)
qed

lemma rhe_minus: "rhe (- y) = - rhe y"
proof (cases "y = of_int \<lfloor>y\<rfloor>")
  case True
  then obtain k where "y = of_int k" ..
  then have "rhe y = k" "rhe (- y) = - k"
    using rhe_of_int [of k] rhe_of_int [of "- k"] by simp_all
  then show ?thesis by simp
next
  case False
  define f where "f = \<lfloor>y\<rfloor>"
  define d where "d = y - of_int f"
  have fm: "\<lfloor>- y\<rfloor> = - f - 1"
    using False by (simp add: f_def floor_minus ceiling_altdef)
  have dm: "- y - of_int (- f - 1) = 1 - d"
    by (simp add: d_def)
  have "rhe y = (if d < 1/2 then f else if 1/2 < d then f + 1 else if even f then f else f + 1)"
    by (simp add: rhe_def Let_def f_def d_def)
  moreover have "rhe (- y) = (if 1 - d < 1/2 then - f - 1 else if 1/2 < 1 - d then - f
      else if even (- f - 1) then - f - 1 else - f)"
    unfolding rhe_def Let_def fm dm by simp
  ultimately show ?thesis by auto
qed


lemma fl_exponent_minus: "fl_exponent (- x) = fl_exponent x"
  by (simp add: fl_exponent_def)

lemma fl_fin_minus: "fl_fin (- x) = - fl_fin x"
  by (simp add: fl_fin_def Let_def fl_exponent_minus rhe_minus)

lemma fl_fin_le_dbl_max:
  assumes "0 < x" and "x \<le> dbl_max"
  shows "fl_fin x \<le> dbl_max"
proof -
  define K where "K = max (fl_exponent x) (- 1022) - 52"
  have nz: "x \<noteq> 0" using assms by simp
  have "2 powi (fl_exponent x) \<le> x"
    using fl_exponent_bounds(1) [OF nz] assms by simp
  also have "x < 2 powi 1024"
    using assms(2) by (simp add: dbl_max_def)
  finally have "fl_exponent x < 1024" by (simp only: pow2_less)
  then have K: "K \<le> 971" by (simp add: K_def)
  have q: "(0::rat) < 2 powi K" by (rule pow2_pos)
  have "dbl_max = of_int (2 ^ 53 - 1) * (2 powi (971 - K) * 2 powi K)"
    by (simp add: dbl_max_def pow2_add [symmetric])
  also have "\<dots> = of_int ((2 ^ 53 - 1) * 2 ^ nat (971 - K)) * 2 powi K"
    using K by (simp add: power_int_def)
  finally have D: "dbl_max = of_int ((2 ^ 53 - 1) * 2 ^ nat (971 - K)) * 2 powi K" .
  have "x / 2 powi K \<le> of_int ((2 ^ 53 - 1) * 2 ^ nat (971 - K))"
    using assms(2) q unfolding D by (simp only: pos_divide_le_eq)
  then have "rhe (x / 2 powi K) \<le> (2 ^ 53 - 1) * 2 ^ nat (971 - K)"
    by (rule rhe_le)
  then have "(of_int (rhe (x / 2 powi K)) :: rat) \<le> of_int ((2 ^ 53 - 1) * 2 ^ nat (971 - K))"
    by (simp only: of_int_le_iff)
  then have "of_int (rhe (x / 2 powi K)) * 2 powi K \<le> dbl_max"
    using q unfolding D by (simp only: mult_le_cancel_right_pos)
  then show ?thesis using nz by (simp add: fl_fin_def Let_def K_def)
qed



lemma fl_finite:
  assumes "\<bar>x\<bar> \<le> dbl_max"
  shows "fl x = Fin (fl_fin x)"
proof -
  have lt: "dbl_max < 2 ^ 1024" by (simp add: dbl_max_def)
  have "\<bar>fl_fin x\<bar> \<le> dbl_max"
  proof (cases "0 < x")
    case True
    then show ?thesis
      using fl_fin_le_dbl_max [of x] fl_fin_nonneg [of x] assms by simp
  next
    case False
    show ?thesis
    proof (cases "x = 0")
      case True
      then show ?thesis by (simp add: fl_fin_def dbl_max_def)
    next
      case False
      with \<open>\<not> 0 < x\<close> have "0 < - x" "- x \<le> dbl_max" using assms by simp_all
      then show ?thesis
        using fl_fin_le_dbl_max [of "- x"] fl_fin_nonneg [of "- x"] by (simp add: fl_fin_minus)
    qed
  qed
  then show ?thesis using lt by (simp add: fl_def Let_def abs_le_iff)
qed

lemma fl_int: "\<bar>n\<bar> < 2 ^ 53 \<Longrightarrow> fl (of_int n) = Fin (of_int n)"
proof -
  assume n: "\<bar>n\<bar> < 2 ^ 53"
  then have "\<bar>of_int n :: rat\<bar> < of_int (2 ^ 53)"
    by (simp only: of_int_abs [symmetric] of_int_less_iff)
  then have "\<bar>of_int n :: rat\<bar> \<le> dbl_max" by (simp add: dbl_max_def)
  then show ?thesis using fl_finite [of "of_int n"] fl_fin_int [OF n] by simp
qed

section \<open>Properties of tables and columns\<close>





lemma getitem_length: "wf_df df \<Longrightarrow> getitem df name = Inr xs \<Longrightarrow> length xs = nrows df"
proof -
  assume wf: "wf_df df" and g: "getitem df name = Inr xs"
  then have "map_of df name = Some xs" by (simp add: getitem_def split: option.splits)
  then have "(name, xs) \<in> set df" by (rule map_of_SomeD)
  then show ?thesis using wf by (auto simp: wf_df_def list_all_iff)
qed





section \<open>Properties of the two patterns\<close>









section \<open>Properties of the Deduplicator\<close>



lemma length_select: "length xs = length ys \<Longrightarrow> length (select m xs) = length (select m ys)"
proof (induction m arbitrary: xs ys)
  case Nil
  then show ?case by simp
next
  case (Cons b bs)
  then show ?case by (cases xs; cases ys) auto
qed














lemma same_cell_refl: "same_cell a a"
proof (cases a)
  case (PyFloat x)
  then show ?thesis by (cases x) auto
qed auto

lemma same_row_refl: "same_row r r"
  by (simp add: same_row_def list_all2_same same_cell_refl)













section \<open>Properties of the Row-wise Deriver\<close>

text \<open>
  C9. On a row whose \<^verbatim>\<open>remaining_lease\<close> is a float, \<^verbatim>\<open>calculate_age_of_flat\<close> raises
  nothing and returns a value that is not negative: the float \<open>99 - remaining_lease\<close>
  when the lease is below 99, and zero when it is 99 or more; 105 gives 0.
\<close>

theorem calculate_age_of_flat_clamped:
  assumes "map_of r ''remaining_lease'' = Some (PyFloat x)"
  shows "(\<exists>v. calculate_age_of_flat r = Inr v \<and> \<not> negative v)
    \<and> (\<forall>a. x = Fin a \<and> a < 99 \<longrightarrow> calculate_age_of_flat r = Inr (PyFloat (fl (99 - a))))
    \<and> (\<forall>a. x = Fin a \<and> 99 \<le> a \<longrightarrow>
          calculate_age_of_flat r = Inr (PyInt 0) \<or> calculate_age_of_flat r = Inr (PyFloat (Fin 0)))
    \<and> (x = Fin 105 \<longrightarrow> calculate_age_of_flat r = Inr (PyInt 0))"
proof -
  have eq: "calculate_age_of_flat r = Inr (max0 (PyFloat (fsub (Fin 99) x)))"
    using assms by (simp add: calculate_age_of_flat_def)
  have 1: "\<not> negative (max0 (PyFloat y))" for y
    by simp
  have 2: "max0 (PyFloat (fsub (Fin 99) (Fin a))) = PyFloat (fl (99 - a))" if "a < 99" for a
    using fl_nonneg [of "99 - a"] that by (simp add: fsub_def)
  have 3: "max0 (PyFloat (fsub (Fin 99) (Fin a))) = PyInt 0
      \<or> max0 (PyFloat (fsub (Fin 99) (Fin a))) = PyFloat (Fin 0)" if "99 \<le> a" for a
    using fl_nonpos_cases [of "99 - a"] that by (auto simp: fsub_def)
  have 4: "max0 (PyFloat (fsub (Fin 99) (Fin 105))) = PyInt 0"
    using fl_minus_6 by (simp add: fsub_def)
  show ?thesis
    unfolding eq using 1 2 3 4 by blast
qed

theorem calculate_age_of_flat_clamped_witness:
  "map_of [(''remaining_lease'', PyFloat (Fin 105))] ''remaining_lease'' = Some (PyFloat (Fin 105))
   \<and> calculate_age_of_flat [(''remaining_lease'', PyFloat (Fin 105))] = Inr (PyInt 0)"
  using calculate_age_of_flat_clamped [of "[(''remaining_lease'', PyFloat (Fin 105))]" "Fin 105"]
  by simp

section \<open>Properties of the Lease Standardizer\<close>














lemma convert_lease_kind:
  "convert_lease v = Inr r \<Longrightarrow> r = PyNone \<or> is_float r"
  by (cases v) (auto simp: bind_err_def split: sum.splits option.splits)














lemma convert_lease_garbage: "convert_lease (PyStr ''garbage'') = Inr PyNone"
proof -
  have n: "match_full ''garbage'' = None"
    by (simp add: match_full_def is_digit_def)
  have m: "match_years ''garbage'' = None"
    by (simp add: match_years_def is_digit_def)
  show ?thesis by (simp add: n m)
qed

subsection \<open>The column\<close>












subsection \<open>Matching by prefix\<close>














subsection \<open>Applying the standardizer twice\<close>

text \<open>
  C2. Idempotence fails where the first pass gives \<^verbatim>\<open>None\<close>. On a column that holds only
  \<^verbatim>\<open>garbage\<close> the first pass returns a column of \<^verbatim>\<open>None\<close>, and the second pass raises
  TypeError on it instead of returning it unchanged.
\<close>

theorem standardize_twice_raises:
  "standardize_remaining_lease [(''remaining_lease'', [PyStr ''garbage''])]
     = Inr [(''remaining_lease'', [PyNone])]
   \<and> standardize_remaining_lease [(''remaining_lease'', [PyNone])] = Inl TypeError
   \<and> bind_err (standardize_remaining_lease [(''remaining_lease'', [PyStr ''garbage''])])
        standardize_remaining_lease = Inl TypeError"
proof -
  have 1: "apply_series convert_lease [PyStr ''garbage''] = Inr [PyNone]"
    by (simp add: bind_err_def convert_lease_garbage del: convert_lease.simps)
  have 2: "apply_series convert_lease [PyNone] = Inl TypeError"
    by (simp add: bind_err_def)
  have 3: "standardize_remaining_lease [(''remaining_lease'', [PyStr ''garbage''])]
     = Inr [(''remaining_lease'', [PyNone])]"
    unfolding standardize_remaining_lease_def getitem_def
    by (simp add: 1 bind_err_def setitem_def infer_objects_def del: apply_series.simps)
  have 4: "standardize_remaining_lease [(''remaining_lease'', [PyNone])] = Inl TypeError"
    unfolding standardize_remaining_lease_def getitem_def
    by (simp add: 2 bind_err_def del: apply_series.simps)
  show ?thesis unfolding 3 using 3 4 by (simp add: bind_err_def)
qed

section \<open>Properties of the Text Normalizer\<close>










lemma clean_flat_model_numbers:
  assumes "getitem df ''flat_model'' = Inr col" and "\<not> list_ex is_str col" and "list_ex (\<lambda>c. \<not> isna c) col"
  shows "clean_flat_model df = Inl AttributeError"
proof -
  obtain c where "c \<in> set col" "\<not> isna c" using assms(3) by (auto simp: list_ex_iff)
  moreover from this have "c \<noteq> PyNone \<and> c \<noteq> PyFloat NaN" by auto
  ultimately have "\<not> list_all (\<lambda>c. c = PyNone \<or> c = PyFloat NaN) col"
    unfolding list_all_iff by blast
  then have "str_accessor col = Inl AttributeError"
    using assms(2) by (simp add: str_accessor_def)
  then show ?thesis using assms(1) by (simp add: clean_flat_model_def bind_err_def)
qed




section \<open>Properties of the Column Splitter\<close>

lemma split_bad: "py_split '' TO '' ''bad'' = [''bad'']"
  by (simp add: py_split_def)

lemma split_04_06: "py_split '' TO '' ''04 TO 06'' = [''04'', ''06'']"
  by (simp add: py_split_def)

lemma split_three: "py_split '' TO '' ''01 TO 03 TO 05'' = [''01'', ''03'', ''05'']"
  by (simp add: py_split_def)

lemma fl_4: "fl 4 = Fin 4"
  using fl_int [of 4] by simp

lemma fl_6: "fl 6 = Fin 6"
  using fl_int [of 6] by simp

text \<open>
  C7. The splitter does raise. A table whose only value is \<^verbatim>\<open>bad\<close> gives a frame of one
  column, and a value with two separators gives one of three: the assignment to the two
  new columns raises ValueError and the whole table fails. Beside a row that splits in
  two, \<^verbatim>\<open>bad\<close> gives two missing values, and \<^verbatim>\<open>04 TO 06\<close> gives 4 and 6.
\<close>

theorem split_storey_range_raises:
  "split_storey_range [(''storey_range'', [PyStr ''bad''])] = Inl ValueError
   \<and> split_storey_range [(''storey_range'', [PyStr ''01 TO 03 TO 05'', PyStr ''04 TO 06''])] = Inl ValueError
   \<and> split_storey_range [(''storey_range'', [PyStr ''04 TO 06'', PyStr ''bad''])]
       = Inr [(''storey_range'', [PyStr ''04 TO 06'', PyStr ''bad'']),
              (''lower_storey'', [PyFloat (Fin 4), PyFloat NaN]),
              (''upper_storey'', [PyFloat (Fin 6), PyFloat NaN])]
   \<and> split_storey_range [(''storey_range'', [PyStr ''04 TO 06''])]
       = Inr [(''storey_range'', [PyStr ''04 TO 06'']),
              (''lower_storey'', [PyInt 4]), (''upper_storey'', [PyInt 6])]"
  by (simp add: split_storey_range_def getitem_def setitem_def bind_err_def str_accessor_def
      split_bad split_04_06 split_three width_def piece_def Let_def to_numeric_coerce_def
      all_digits_def is_digit_def int_of_digits_def fl_4 fl_6)

section \<open>Properties of the Grouped Aggregator\<close>

lemma flt_irrefl: "\<not> flt a a"
  by (cases a) auto

lemma flt_trans: "flt a b \<Longrightarrow> flt b c \<Longrightarrow> flt a c"
  by (cases a; cases b; cases c) auto

lemma max_by_None: "max_by lt xs = None \<longleftrightarrow> xs = []"
  by (cases xs) (auto split: option.splits)

lemma max_by_max:
  assumes "\<And>a. \<not> lt a a" and "\<And>a b c. lt a b \<Longrightarrow> lt b c \<Longrightarrow> lt a c"
  shows "max_by lt xs = Some m \<Longrightarrow> m \<in> set xs \<and> (\<forall>u \<in> set xs. \<not> lt m u)"
proof (induction xs arbitrary: m)
  case Nil
  then show ?case by simp
next
  case (Cons x xs)
  show ?case
  proof (cases "max_by lt xs")
    case None
    then have "xs = []" by (simp add: max_by_None)
    then show ?thesis using Cons.prems assms(1) by simp
  next
    case (Some m')
    then have IH: "m' \<in> set xs" "\<forall>u \<in> set xs. \<not> lt m' u"
      using Cons.IH by simp_all
    show ?thesis
    proof (cases "lt m' x")
      case True
      then have m: "m = x" using Cons.prems Some by simp
      have "\<not> lt x u" if "u \<in> set xs" for u
        using IH(2) that True assms(2) by blast
      then show ?thesis using m assms(1) by simp
    next
      case False
      then have m: "m = m'" using Cons.prems Some by simp
      then show ?thesis using IH False by simp
    qed
  qed
qed

lemma group_max_cell:
  assumes "group_max keys upper k = Some m"
  shows "\<not> list_ex isna k" and "m \<in> set (group_values keys upper k)"
    and "\<forall>u \<in> set (group_values keys upper k). \<not> cell_lt m u"
proof -
  show k: "\<not> list_ex isna k" using assms by (simp add: group_max_def split: if_splits)
  then have "max_by cell_lt (group_values keys upper k) = Some m"
    using assms by (simp add: group_max_def)
  then have "m \<in> set (group_values keys upper k) \<and> (\<forall>u \<in> set (group_values keys upper k). \<not> cell_lt m u)"
    by (rule max_by_max [rotated 2]) (auto simp: cell_lt_def flt_irrefl intro: flt_trans)
  then show "m \<in> set (group_values keys upper k)"
    and "\<forall>u \<in> set (group_values keys upper k). \<not> cell_lt m u" by simp_all
qed

lemma group_max_None:
  "group_max keys upper k = None \<longleftrightarrow> list_ex isna k \<or> group_values keys upper k = []"
  by (simp add: group_max_def max_by_None)

lemma group_values_float: "list_all is_float upper \<Longrightarrow> list_all is_float (group_values keys upper k)"
  by (auto simp: group_values_def list_all_iff dest: set_zip_rightD)

lemma to_float_cell_float: "is_float c \<Longrightarrow> to_float_cell c = c"
  by (cases c) auto

lemma length_transform_max: "length (transform_max keys upper) = length keys"
  by (simp add: transform_max_def Let_def)

lemma group_keys_nth:
  assumes "length town = n" "length block = n" "length street = n" "i < n"
  shows "group_keys town block street ! i = [town ! i, block ! i, street ! i]"
  using assms by (simp add: group_keys_def)

lemma length_group_keys:
  assumes "length town = n" "length block = n" "length street = n"
  shows "length (group_keys town block street) = n"
  using assms by (simp add: group_keys_def)

lemma in_group_values:
  assumes "length keys = length upper"
  shows "u \<in> set (group_values keys upper k)
    \<longleftrightarrow> (\<exists>j < length upper. same_row (keys ! j) k \<and> \<not> isna (upper ! j) \<and> u = upper ! j)"
proof
  assume "u \<in> set (group_values keys upper k)"
  then obtain k' where "(k', u) \<in> set (zip keys upper)" "same_row k' k" "\<not> isna u"
    by (auto simp: group_values_def)
  then obtain j where "j < length upper" "keys ! j = k'" "upper ! j = u"
    using assms by (auto simp: in_set_zip)
  then show "\<exists>j < length upper. same_row (keys ! j) k \<and> \<not> isna (upper ! j) \<and> u = upper ! j"
    using \<open>same_row k' k\<close> \<open>\<not> isna u\<close> by auto
next
  assume "\<exists>j < length upper. same_row (keys ! j) k \<and> \<not> isna (upper ! j) \<and> u = upper ! j"
  then obtain j where j: "j < length upper" "same_row (keys ! j) k" "\<not> isna (upper ! j)" "u = upper ! j"
    by auto
  then have "(keys ! j, upper ! j) \<in> set (zip keys upper)"
    using assms by (auto simp: in_set_zip)
  then have "(keys ! j, upper ! j) \<in> set (filter (\<lambda>(k', u). same_row k' k \<and> \<not> isna u) (zip keys upper))"
    using j by simp
  then have "snd (keys ! j, upper ! j) \<in> set (group_values keys upper k)"
    unfolding group_values_def set_map by (rule imageI)
  then show "u \<in> set (group_values keys upper k)"
    using j by simp
qed

lemma float_numeric: "is_float c \<Longrightarrow> numeric_or_missing c"
  by (cases c) auto

lemma int_numeric: "is_int c \<Longrightarrow> numeric_or_missing c"
  by (cases c) auto

lemma int_not_isna: "is_int c \<Longrightarrow> \<not> isna c"
  by (cases c) auto

lemma isna_float: "is_float c \<Longrightarrow> isna c \<Longrightarrow> c = PyFloat NaN"
  by (cases c rule: isna.cases) auto

lemma same_cell_str: "is_str a \<Longrightarrow> is_str b \<Longrightarrow> same_cell a b \<longleftrightarrow> a = b"
  by (cases a; cases b) auto

lemma same_row_str:
  "list_all is_str r \<Longrightarrow> list_all is_str s \<Longrightarrow> same_row r s \<longleftrightarrow> r = s"
proof (induction r arbitrary: s)
  case Nil
  then show ?case by (auto simp: same_row_def)
next
  case (Cons a r)
  show ?case
  proof (cases s)
    case Nil
    then show ?thesis by (auto simp: same_row_def)
  next
    case (Cons b s')
    have "same_row r s' \<longleftrightarrow> r = s'"
      using Cons.IH [of s'] Cons.prems Cons by simp
    moreover have "same_cell a b \<longleftrightarrow> a = b"
      using Cons.prems Cons by (simp add: same_cell_str)
    ultimately show ?thesis using Cons by (simp add: same_row_def)
  qed
qed

text \<open>
  When the column holds ints, every row with a key has a value in its group, so the
  result stays an integer column exactly when no key is missing.
\<close>

lemma int_results:
  assumes "list_all is_int upper" and "length keys = length upper"
  shows "list_all (\<lambda>r. r \<noteq> None) (map (group_max keys upper) keys)
    \<longleftrightarrow> \<not> list_ex (list_ex isna) keys"
proof -
  have "group_max keys upper k \<noteq> None \<longleftrightarrow> \<not> list_ex isna k" if k: "k \<in> set keys" for k
  proof -
    obtain i where i: "i < length keys" "keys ! i = k"
      using k by (auto simp: in_set_conv_nth)
    have "is_int (upper ! i)" using assms i(1) by (simp add: list_all_length)
    then have "\<not> isna (upper ! i)" by (rule int_not_isna)
    then have "upper ! i \<in> set (group_values keys upper k)"
      unfolding in_group_values [OF assms(2)] using i assms(2) same_row_refl by auto
    then have "group_values keys upper k \<noteq> []" by auto
    then show ?thesis by (simp add: group_max_None)
  qed
  then show ?thesis by (auto simp: list_all_iff list_ex_iff)
qed

lemma transform_max_nth:
  assumes "list_all is_int upper \<or> list_all is_float upper"
    and "length keys = length upper" and "i < length keys"
  shows "transform_max keys upper ! i =
     (case group_max keys upper (keys ! i) of
        Some c \<Rightarrow> (if stays_int keys upper then c else to_float_cell c)
      | None \<Rightarrow> PyFloat NaN)"
proof (cases "list_all is_int upper")
  case True
  have r: "list_all (\<lambda>r. r \<noteq> None) (map (group_max keys upper) keys)
      \<longleftrightarrow> \<not> list_ex (list_ex isna) keys"
    by (rule int_results [OF True assms(2)])
  show ?thesis
  proof (cases "list_ex (list_ex isna) keys")
    case True
    then show ?thesis
      using r assms(3) by (simp add: transform_max_def Let_def stays_int_def split: option.splits)
  next
    case False
    then show ?thesis
      using r True assms(3) by (simp add: transform_max_def Let_def stays_int_def split: option.splits)
  qed
next
  case False
  then have f: "list_all is_float upper" using assms(1) by simp
  have "to_float_cell c = c" if "group_max keys upper k = Some c" for c k
  proof -
    have "c \<in> set (group_values keys upper k)" using group_max_cell(2) [OF that] .
    then have "is_float c" using group_values_float [OF f, of keys k] by (simp add: list_all_iff)
    then show ?thesis by (rule to_float_cell_float)
  qed
  then show ?thesis
    using False assms(3) by (simp add: transform_max_def Let_def stays_int_def split: option.splits)
qed

text \<open>
  C8, amended. On a table with the four columns, \<^verbatim>\<open>upper_storey\<close> an integer column or a
  float column, \<^verbatim>\<open>add_max_storey\<close> sets \<^verbatim>\<open>max_storey\<close> row by row. The values of a row's
  group are the \<^verbatim>\<open>upper_storey\<close> values that are not missing, over the rows whose town,
  block and street name are the same as the row's; for keys that are strings, the same
  means equal. A row with a missing key gets a missing \<^verbatim>\<open>max_storey\<close>, and so does a row
  whose group has no value. Any other row gets a value of its group that none of the
  group exceeds, and a row that shares its key with no other row gets its own
  \<^verbatim>\<open>upper_storey\<close>. An integer column gives integers, unless a key is missing somewhere
  in the table: then it gives the same numbers as floats.
\<close>

theorem add_max_storey_group_max:
  assumes "wf_df df"
    and "getitem df ''town'' = Inr town" and "getitem df ''block'' = Inr block"
    and "getitem df ''street_name'' = Inr street" and "getitem df ''upper_storey'' = Inr upper"
    and "list_all is_int upper \<or> list_all is_float upper"
  shows "(\<exists>mx. add_max_storey df = Inr (setitem df ''max_storey'' mx) \<and> length mx = length upper
    \<and> (\<forall>i < length upper.
         (\<forall>u. u \<in> set (group_values (group_keys town block street) upper (group_keys town block street ! i))
            \<longleftrightarrow> (\<exists>j < length upper.
                   same_row [town ! j, block ! j, street ! j] [town ! i, block ! i, street ! i]
                   \<and> \<not> isna (upper ! j) \<and> u = upper ! j))
       \<and> (isna (town ! i) \<or> isna (block ! i) \<or> isna (street ! i) \<longrightarrow> mx ! i = PyFloat NaN)
       \<and> (group_values (group_keys town block street) upper (group_keys town block street ! i) = []
            \<longrightarrow> mx ! i = PyFloat NaN)
       \<and> (\<not> (isna (town ! i) \<or> isna (block ! i) \<or> isna (street ! i))
            \<and> group_values (group_keys town block street) upper (group_keys town block street ! i) \<noteq> []
            \<longrightarrow> (\<exists>m \<in> set (group_values (group_keys town block street) upper (group_keys town block street ! i)).
                  (\<forall>u \<in> set (group_values (group_keys town block street) upper (group_keys town block street ! i)).
                    \<not> cell_lt m u)
                  \<and> mx ! i = (if stays_int (group_keys town block street) upper then m else to_float_cell m)))
       \<and> (\<not> (isna (town ! i) \<or> isna (block ! i) \<or> isna (street ! i))
            \<and> (\<forall>j < length upper. j \<noteq> i \<longrightarrow>
                  \<not> same_row [town ! j, block ! j, street ! j] [town ! i, block ! i, street ! i])
            \<longrightarrow> mx ! i = (if stays_int (group_keys town block street) upper then upper ! i
                          else to_float_cell (upper ! i)))))
    \<and> (list_all is_float upper \<longrightarrow> (\<forall>u \<in> set upper. to_float_cell u = u))
    \<and> (\<forall>r s. list_all is_str r \<and> list_all is_str s \<longrightarrow> (same_row r s \<longleftrightarrow> r = s))
    \<and> add_max_storey [(''town'', [PyStr ''T1'', PyStr ''T1'', PyStr ''T2'']),
                       (''block'', [PyStr ''B1'', PyStr ''B1'', PyStr ''B1'']),
                       (''street_name'', [PyStr ''S1'', PyStr ''S1'', PyStr ''S1'']),
                       (''upper_storey'', [PyInt 5, PyInt 9, PyInt 7])]
        = Inr [(''town'', [PyStr ''T1'', PyStr ''T1'', PyStr ''T2'']),
               (''block'', [PyStr ''B1'', PyStr ''B1'', PyStr ''B1'']),
               (''street_name'', [PyStr ''S1'', PyStr ''S1'', PyStr ''S1'']),
               (''upper_storey'', [PyInt 5, PyInt 9, PyInt 7]),
               (''max_storey'', [PyInt 9, PyInt 9, PyInt 7])]"
proof -
  define keys where "keys = group_keys town block street"
  define mx where "mx = transform_max keys upper"
  define n where "n = length upper"
  have len: "length town = n" "length block = n" "length street = n"
    using assms(1-5) getitem_length unfolding n_def by metis+
  have lk: "length keys = n" unfolding keys_def by (rule length_group_keys [OF len])
  have key: "keys ! i = [town ! i, block ! i, street ! i]" if "i < n" for i
    unfolding keys_def using group_keys_nth [OF len that] .
  have num: "list_all numeric_or_missing upper"
    using assms(6) float_numeric int_numeric by (auto simp: list_all_iff)
  have run: "add_max_storey df = Inr (setitem df ''max_storey'' mx)"
    using assms(2-5) num by (simp add: add_max_storey_def bind_err_def mx_def keys_def)
  have lmx: "length mx = length upper"
    by (simp add: mx_def length_transform_max lk n_def)
  have row: "(\<forall>u. u \<in> set (group_values keys upper (keys ! i))
            \<longleftrightarrow> (\<exists>j < length upper.
                   same_row [town ! j, block ! j, street ! j] [town ! i, block ! i, street ! i]
                   \<and> \<not> isna (upper ! j) \<and> u = upper ! j))
       \<and> (isna (town ! i) \<or> isna (block ! i) \<or> isna (street ! i) \<longrightarrow> mx ! i = PyFloat NaN)
       \<and> (group_values keys upper (keys ! i) = [] \<longrightarrow> mx ! i = PyFloat NaN)
       \<and> (\<not> (isna (town ! i) \<or> isna (block ! i) \<or> isna (street ! i))
            \<and> group_values keys upper (keys ! i) \<noteq> []
            \<longrightarrow> (\<exists>m \<in> set (group_values keys upper (keys ! i)).
                  (\<forall>u \<in> set (group_values keys upper (keys ! i)). \<not> cell_lt m u)
                  \<and> mx ! i = (if stays_int keys upper then m else to_float_cell m)))
       \<and> (\<not> (isna (town ! i) \<or> isna (block ! i) \<or> isna (street ! i))
            \<and> (\<forall>j < length upper. j \<noteq> i \<longrightarrow>
                  \<not> same_row [town ! j, block ! j, street ! j] [town ! i, block ! i, street ! i])
            \<longrightarrow> mx ! i = (if stays_int keys upper then upper ! i else to_float_cell (upper ! i)))"
    if i: "i < length upper" for i
  proof -
    have i': "i < n" using i by (simp add: n_def)
    let ?G = "group_values keys upper (keys ! i)"
    have mxi: "mx ! i = (case group_max keys upper (keys ! i) of
        Some c \<Rightarrow> (if stays_int keys upper then c else to_float_cell c) | None \<Rightarrow> PyFloat NaN)"
      unfolding mx_def by (rule transform_max_nth [OF assms(6)]) (use lk i' in \<open>simp_all add: n_def\<close>)
    have na: "list_ex isna (keys ! i) \<longleftrightarrow> isna (town ! i) \<or> isna (block ! i) \<or> isna (street ! i)"
      by (simp add: key [OF i'])
    have mem: "u \<in> set ?G \<longleftrightarrow> (\<exists>j < length upper.
        same_row [town ! j, block ! j, street ! j] [town ! i, block ! i, street ! i]
        \<and> \<not> isna (upper ! j) \<and> u = upper ! j)" for u
    proof -
      have "u \<in> set ?G \<longleftrightarrow> (\<exists>j < length upper. same_row (keys ! j) (keys ! i)
          \<and> \<not> isna (upper ! j) \<and> u = upper ! j)"
        by (rule in_group_values) (simp add: lk n_def)
      also have "\<dots> \<longleftrightarrow> (\<exists>j < length upper.
        same_row [town ! j, block ! j, street ! j] [town ! i, block ! i, street ! i]
        \<and> \<not> isna (upper ! j) \<and> u = upper ! j)"
        using key i' by (auto simp: n_def)
      finally show ?thesis .
    qed
    have c2: "mx ! i = PyFloat NaN" if "isna (town ! i) \<or> isna (block ! i) \<or> isna (street ! i)"
      using that na mxi by (simp add: group_max_def)
    have c3: "mx ! i = PyFloat NaN" if "?G = []"
    proof -
      have "group_max keys upper (keys ! i) = None" using that by (simp add: group_max_None)
      then show ?thesis using mxi by simp
    qed
    have c4: "\<exists>m \<in> set ?G. (\<forall>u \<in> set ?G. \<not> cell_lt m u)
        \<and> mx ! i = (if stays_int keys upper then m else to_float_cell m)"
      if "\<not> (isna (town ! i) \<or> isna (block ! i) \<or> isna (street ! i))" "?G \<noteq> []"
    proof -
      have "group_max keys upper (keys ! i) \<noteq> None"
        using that na by (simp add: group_max_None)
      then obtain m where m: "group_max keys upper (keys ! i) = Some m" by auto
      then have "mx ! i = (if stays_int keys upper then m else to_float_cell m)"
        using mxi by simp
      then show ?thesis using group_max_cell(2,3) [OF m] by blast
    qed
    have c5: "mx ! i = (if stays_int keys upper then upper ! i else to_float_cell (upper ! i))"
      if k: "\<not> (isna (town ! i) \<or> isna (block ! i) \<or> isna (street ! i))"
        and single: "\<forall>j < length upper. j \<noteq> i \<longrightarrow>
          \<not> same_row [town ! j, block ! j, street ! j] [town ! i, block ! i, street ! i]"
    proof -
      have sub: "u = upper ! i" if "u \<in> set ?G" for u
        using that single unfolding mem by auto
      show ?thesis
      proof (cases "isna (upper ! i)")
        case True
        have "\<not> is_int (upper ! i)" using True int_not_isna by blast
        then have ni: "\<not> list_all is_int upper" using i by (auto simp: list_all_length)
        then have "list_all is_float upper" using assms(6) by simp
        then have "is_float (upper ! i)" using i by (simp add: list_all_length)
        then have u: "upper ! i = PyFloat NaN" using True by (rule isna_float)
        have "?G = []"
        proof (rule ccontr)
          assume "?G \<noteq> []"
          then obtain v where v: "v \<in> set ?G" by (cases ?G) auto
          then have "v = upper ! i" by (rule sub)
          moreover have "\<not> isna v" using v unfolding mem by auto
          ultimately show False using True by simp
        qed
        then show ?thesis using c3 u ni by (simp add: stays_int_def)
      next
        case False
        have "upper ! i \<in> set ?G"
          unfolding mem using i False same_row_refl by blast
        then have "?G \<noteq> []" by auto
        then obtain m where "m \<in> set ?G"
          and "mx ! i = (if stays_int keys upper then m else to_float_cell m)"
          using c4 [OF k] by blast
        then show ?thesis using sub by simp
      qed
    qed
    show ?thesis using mem c2 c3 c4 c5 by blast
  qed
  have A: "\<exists>mx. add_max_storey df = Inr (setitem df ''max_storey'' mx) \<and> length mx = length upper
    \<and> (\<forall>i < length upper.
         (\<forall>u. u \<in> set (group_values keys upper (keys ! i))
            \<longleftrightarrow> (\<exists>j < length upper.
                   same_row [town ! j, block ! j, street ! j] [town ! i, block ! i, street ! i]
                   \<and> \<not> isna (upper ! j) \<and> u = upper ! j))
       \<and> (isna (town ! i) \<or> isna (block ! i) \<or> isna (street ! i) \<longrightarrow> mx ! i = PyFloat NaN)
       \<and> (group_values keys upper (keys ! i) = [] \<longrightarrow> mx ! i = PyFloat NaN)
       \<and> (\<not> (isna (town ! i) \<or> isna (block ! i) \<or> isna (street ! i))
            \<and> group_values keys upper (keys ! i) \<noteq> []
            \<longrightarrow> (\<exists>m \<in> set (group_values keys upper (keys ! i)).
                  (\<forall>u \<in> set (group_values keys upper (keys ! i)). \<not> cell_lt m u)
                  \<and> mx ! i = (if stays_int keys upper then m else to_float_cell m)))
       \<and> (\<not> (isna (town ! i) \<or> isna (block ! i) \<or> isna (street ! i))
            \<and> (\<forall>j < length upper. j \<noteq> i \<longrightarrow>
                  \<not> same_row [town ! j, block ! j, street ! j] [town ! i, block ! i, street ! i])
            \<longrightarrow> mx ! i = (if stays_int keys upper then upper ! i else to_float_cell (upper ! i))))"
    by (intro exI [of _ mx] conjI run lmx allI impI row)
  have B: "list_all is_float upper \<longrightarrow> (\<forall>u \<in> set upper. to_float_cell u = u)"
    by (auto simp: list_all_iff to_float_cell_float)
  have C: "\<forall>r s. list_all is_str r \<and> list_all is_str s \<longrightarrow> (same_row r s \<longleftrightarrow> r = s)"
    using same_row_str by blast
  have D: "add_max_storey [(''town'', [PyStr ''T1'', PyStr ''T1'', PyStr ''T2'']),
                       (''block'', [PyStr ''B1'', PyStr ''B1'', PyStr ''B1'']),
                       (''street_name'', [PyStr ''S1'', PyStr ''S1'', PyStr ''S1'']),
                       (''upper_storey'', [PyInt 5, PyInt 9, PyInt 7])]
        = Inr [(''town'', [PyStr ''T1'', PyStr ''T1'', PyStr ''T2'']),
               (''block'', [PyStr ''B1'', PyStr ''B1'', PyStr ''B1'']),
               (''street_name'', [PyStr ''S1'', PyStr ''S1'', PyStr ''S1'']),
               (''upper_storey'', [PyInt 5, PyInt 9, PyInt 7]),
               (''max_storey'', [PyInt 9, PyInt 9, PyInt 7])]"
    by (simp add: add_max_storey_def getitem_def bind_err_def setitem_def transform_max_def
        group_keys_def group_max_def group_values_def same_row_def cell_lt_def Let_def)
  show ?thesis
    unfolding keys_def [symmetric]
    by (intro conjI) (rule A, rule B, rule C, rule D)
qed

text \<open>
  Four rows of two buildings: the rows of the first, with the values 5, 9 and missing, all
  get 9, and the row of the second gets its own 7.
\<close>

theorem add_max_storey_group_max_witness:
  "wf_df [(''town'', [PyStr ''T1'', PyStr ''T1'', PyStr ''T2'', PyStr ''T1'']),
          (''block'', [PyStr ''B1'', PyStr ''B1'', PyStr ''B1'', PyStr ''B1'']),
          (''street_name'', [PyStr ''S1'', PyStr ''S1'', PyStr ''S1'', PyStr ''S1'']),
          (''upper_storey'', [PyFloat (Fin 5), PyFloat (Fin 9), PyFloat (Fin 7), PyFloat NaN])]
   \<and> (list_all is_int [PyFloat (Fin 5), PyFloat (Fin 9), PyFloat (Fin 7), PyFloat NaN]
        \<or> list_all is_float [PyFloat (Fin 5), PyFloat (Fin 9), PyFloat (Fin 7), PyFloat NaN])
   \<and> (\<exists>mx. add_max_storey
          [(''town'', [PyStr ''T1'', PyStr ''T1'', PyStr ''T2'', PyStr ''T1'']),
           (''block'', [PyStr ''B1'', PyStr ''B1'', PyStr ''B1'', PyStr ''B1'']),
           (''street_name'', [PyStr ''S1'', PyStr ''S1'', PyStr ''S1'', PyStr ''S1'']),
           (''upper_storey'', [PyFloat (Fin 5), PyFloat (Fin 9), PyFloat (Fin 7), PyFloat NaN])]
        = Inr (setitem
          [(''town'', [PyStr ''T1'', PyStr ''T1'', PyStr ''T2'', PyStr ''T1'']),
           (''block'', [PyStr ''B1'', PyStr ''B1'', PyStr ''B1'', PyStr ''B1'']),
           (''street_name'', [PyStr ''S1'', PyStr ''S1'', PyStr ''S1'', PyStr ''S1'']),
           (''upper_storey'', [PyFloat (Fin 5), PyFloat (Fin 9), PyFloat (Fin 7), PyFloat NaN])]
          ''max_storey'' mx)
        \<and> length mx = length [PyFloat (Fin 5), PyFloat (Fin 9), PyFloat (Fin 7), PyFloat NaN]
        \<and> mx ! 2 = PyFloat (Fin 7))
   \<and> add_max_storey
          [(''town'', [PyStr ''T1'', PyStr ''T1'', PyStr ''T2'', PyStr ''T1'']),
           (''block'', [PyStr ''B1'', PyStr ''B1'', PyStr ''B1'', PyStr ''B1'']),
           (''street_name'', [PyStr ''S1'', PyStr ''S1'', PyStr ''S1'', PyStr ''S1'']),
           (''upper_storey'', [PyFloat (Fin 5), PyFloat (Fin 9), PyFloat (Fin 7), PyFloat NaN])]
        = Inr [(''town'', [PyStr ''T1'', PyStr ''T1'', PyStr ''T2'', PyStr ''T1'']),
           (''block'', [PyStr ''B1'', PyStr ''B1'', PyStr ''B1'', PyStr ''B1'']),
           (''street_name'', [PyStr ''S1'', PyStr ''S1'', PyStr ''S1'', PyStr ''S1'']),
           (''upper_storey'', [PyFloat (Fin 5), PyFloat (Fin 9), PyFloat (Fin 7), PyFloat NaN]),
           (''max_storey'', [PyFloat (Fin 9), PyFloat (Fin 9), PyFloat (Fin 7), PyFloat (Fin 9)])]"
proof -
  let ?town = "[PyStr ''T1'', PyStr ''T1'', PyStr ''T2'', PyStr ''T1'']"
  let ?block = "[PyStr ''B1'', PyStr ''B1'', PyStr ''B1'', PyStr ''B1'']"
  let ?street = "[PyStr ''S1'', PyStr ''S1'', PyStr ''S1'', PyStr ''S1'']"
  let ?upper = "[PyFloat (Fin 5), PyFloat (Fin 9), PyFloat (Fin 7), PyFloat NaN]"
  let ?df = "[(''town'', ?town), (''block'', ?block), (''street_name'', ?street),
              (''upper_storey'', ?upper)]"
  have wf: "wf_df ?df" by (simp add: wf_df_def nrows_def)
  have g: "getitem ?df ''town'' = Inr ?town"
    "getitem ?df ''block'' = Inr ?block"
    "getitem ?df ''street_name'' = Inr ?street"
    "getitem ?df ''upper_storey'' = Inr ?upper"
    by (simp_all add: getitem_def)
  have f: "list_all is_int ?upper \<or> list_all is_float ?upper" by simp
  note t = add_max_storey_group_max [OF wf g f, THEN conjunct1]
  obtain mx where run: "add_max_storey ?df = Inr (setitem ?df ''max_storey'' mx)"
    and len: "length mx = length ?upper"
    and rows: "\<forall>i < length ?upper.
       (\<not> (isna (?town ! i) \<or> isna (?block ! i) \<or> isna (?street ! i))
            \<and> (\<forall>j < length ?upper. j \<noteq> i \<longrightarrow>
                  \<not> same_row [?town ! j, ?block ! j, ?street ! j] [?town ! i, ?block ! i, ?street ! i])
            \<longrightarrow> mx ! i = (if stays_int (group_keys ?town ?block ?street) ?upper then ?upper ! i
                          else to_float_cell (?upper ! i)))"
    using t by blast
  have alone: "\<forall>j < length ?upper. j \<noteq> 2 \<longrightarrow>
      \<not> same_row [?town ! j, ?block ! j, ?street ! j] [?town ! 2, ?block ! 2, ?street ! 2]"
  proof (intro allI impI)
    fix j :: nat
    assume "j < length ?upper" and "j \<noteq> 2"
    then have "j = 0 \<or> j = 1 \<or> j = 3" by auto
    then show "\<not> same_row [?town ! j, ?block ! j, ?street ! j] [?town ! 2, ?block ! 2, ?street ! 2]"
      by (auto simp: same_row_def)
  qed
  have "mx ! 2 = (if stays_int (group_keys ?town ?block ?street) ?upper then ?upper ! 2
      else to_float_cell (?upper ! 2))"
    using rows [rule_format, of 2] alone by simp
  then have m2: "mx ! 2 = PyFloat (Fin 7)" by (simp add: stays_int_def)
  have ex: "\<exists>mx. add_max_storey ?df = Inr (setitem ?df ''max_storey'' mx)
      \<and> length mx = length ?upper \<and> mx ! 2 = PyFloat (Fin 7)"
    by (intro exI [of _ mx] conjI run len m2)
  have val: "add_max_storey ?df
      = Inr (?df @ [(''max_storey'', [PyFloat (Fin 9), PyFloat (Fin 9), PyFloat (Fin 7), PyFloat (Fin 9)])])"
    by (simp add: add_max_storey_def getitem_def bind_err_def setitem_def transform_max_def
        group_keys_def group_max_def group_values_def same_row_def cell_lt_def Let_def)
  have val': "add_max_storey ?df
      = Inr [(''town'', ?town), (''block'', ?block), (''street_name'', ?street),
             (''upper_storey'', ?upper),
             (''max_storey'', [PyFloat (Fin 9), PyFloat (Fin 9), PyFloat (Fin 7), PyFloat (Fin 9)])]"
    using val by simp
  show ?thesis by (intro conjI) (rule wf, rule f, rule ex, rule val')
qed

text \<open>
  A row whose town is missing is alone with its key, and yet does not get its own
  \<^verbatim>\<open>upper_storey\<close>: it gets NaN.
\<close>

theorem add_max_storey_missing_key:
  "add_max_storey [(''town'', [PyNone]), (''block'', [PyStr ''1'']),
                   (''street_name'', [PyStr ''A'']), (''upper_storey'', [PyFloat (Fin 5)])]
     = Inr [(''town'', [PyNone]), (''block'', [PyStr ''1'']),
            (''street_name'', [PyStr ''A'']), (''upper_storey'', [PyFloat (Fin 5)]),
            (''max_storey'', [PyFloat NaN])]"
  by (simp add: add_max_storey_def getitem_def bind_err_def setitem_def transform_max_def
      group_keys_def group_max_def Let_def)

section \<open>Properties of the Date Normalizer\<close>














section \<open>Properties of the Lease Imputer\<close>




















































end
